theory Spec2Isabelle
  imports Complex_Main
begin

section \<open>FlatTransferFunctionOnTheta (modules/FlatTransferFunctionOnTheta.cc)\<close>

text \<open>
  The module reads one phase-space point and one four-momentum from the pool, writes a
  four-momentum with a new polar angle and a constant weight back to the pool, and returns
  a status.

  Numbers: the C++ \<^verbatim>\<open>double\<close> is read as \<^typ>\<open>real\<close>, and \<^verbatim>\<open>std::sin\<close>,
  \<^verbatim>\<open>std::cos\<close>, \<^verbatim>\<open>std::sqrt\<close>, \<^verbatim>\<open>std::atan2\<close> as the real functions. Every
  equality below is therefore an equality of exact real arithmetic; the rounding of the
  operations, infinities and NaN are outside the model. The constant \<^verbatim>\<open>M_PI\<close> is read in
  two ways: as the number \<open>\<pi>\<close>, which is the spec's reading and the one of \<open>work\<close>, and as
  the double that the C library's macro denotes, a rational number just below \<open>\<pi>\<close>. The
  second reading is used only where the first would settle a statement by the exact
  vanishing of the sine at \<open>\<pi>\<close>.
\<close>

subsection \<open>Numbers\<close>

text \<open>
  Modelled from the spec: the macro \<^verbatim>\<open>M_PI\<close> is the C library's, not the sources'. The
  spec reads it as the number \<open>\<pi>\<close>.
\<close>

definition M_PI :: real where
  "M_PI = pi"

text \<open>
  The C library defines the macro as the decimal \<^verbatim>\<open>3.14159265358979323846\<close>. The double
  nearest to it, which is what the program multiplies by, has the bit pattern
  \<^verbatim>\<open>0x400921FB54442D18\<close>: the rational \<open>884279719003555 / 2^48\<close>, that is
  \<open>3.141592653589793115997963...\<close>, below \<open>\<pi>\<close> by about \<open>1.22e-16\<close>.
\<close>

definition M_PI_double :: real where
  "M_PI_double = 884279719003555 / 281474976710656"

subsection \<open>Four-momenta\<close>

text \<open>
  Modelled from the spec: the type \<^verbatim>\<open>LorentzVector\<close> comes from \<^verbatim>\<open>momemta/Types.h\<close>,
  which is not among the sources. The spec describes it as a vector with components
  (energy, momentum-x, momentum-y, momentum-z), equivalently (energy, |momentum|, polar
  angle, azimuthal angle). The four Cartesian fields are stored; the field names are those
  of the coordinate system behind the typedef.
\<close>

record LorentzVector =
  fX :: real
  fY :: real
  fZ :: real
  fT :: real

text \<open>
  Modelled from the spec: the azimuthal and polar angles of the spec's four-momentum are
  angles of a point of the plane. The vector library takes them from the C library's
  two-argument arctangent, which is not among the sources either: the angle of the point
  \<open>(x, y)\<close> in \<open>(-\<pi>, \<pi>]\<close>, and 0 at the origin.
\<close>

definition atan2 :: "real \<Rightarrow> real \<Rightarrow> real" where
  "atan2 y x =
     (if 0 < x then arctan (y / x)
      else if x < 0 then (if 0 \<le> y then arctan (y / x) + pi else arctan (y / x) - pi)
      else if 0 < y then pi / 2
      else if y < 0 then - (pi / 2)
      else 0)"

text \<open>
  Modelled from the spec: the accessors of the four-momentum (energy, momentum magnitude,
  azimuthal and polar angle) and the setter of its four Cartesian coordinates belong to the
  vector library behind \<^verbatim>\<open>momemta/Types.h\<close>, not to the sources. The angles of a vector
  with no transverse (resp. no) momentum are 0, as that library defines them.
\<close>

definition E :: "LorentzVector \<Rightarrow> real" where
  "E v = fT v"

definition P :: "LorentzVector \<Rightarrow> real" where
  "P v = sqrt (fX v * fX v + fY v * fY v + fZ v * fZ v)"

definition Pt :: "LorentzVector \<Rightarrow> real" where
  "Pt v = sqrt (fX v * fX v + fY v * fY v)"

definition Phi :: "LorentzVector \<Rightarrow> real" where
  "Phi v = (if fX v = 0 \<and> fY v = 0 then 0 else atan2 (fY v) (fX v))"

definition Theta :: "LorentzVector \<Rightarrow> real" where
  "Theta v = (if fX v = 0 \<and> fY v = 0 \<and> fZ v = 0 then 0 else atan2 (Pt v) (fZ v))"

definition SetCoordinates :: "real \<Rightarrow> real \<Rightarrow> real \<Rightarrow> real \<Rightarrow> LorentzVector" where
  "SetCoordinates a b c d = \<lparr>fX = a, fY = b, fZ = c, fT = d\<rparr>"

subsection \<open>The pool\<close>

text \<open>
  Modelled from the spec: the pool, the input tags and the status code are declared in
  \<^verbatim>\<open>momemta/Module.h\<close> and its neighbours, which are not among the sources. Per the
  spec, an input is a named reference resolved to a storage location of the pool, an output
  is a named slot of the pool that the module writes on every invocation, and the entry
  point returns a status code. A slot is named by the module that owns it and the name of
  the value; it holds a scalar or a four-momentum. Reading a tag that holds no value of the
  requested type fails inside the framework's accessor, in the first two lines of
  \<^verbatim>\<open>work\<close>: this is \<open>None\<close>. \<^verbatim>\<open>work\<close> has no error path of its own. The framework
  has status codes besides success (here \<open>NEXT\<close> and \<open>ABORT\<close>); only \<open>OK\<close> occurs in
  this module.
\<close>

type_synonym InputTag = "string \<times> string"

datatype any = Double real | Vector LorentzVector

type_synonym Pool = "InputTag \<rightharpoonup> any"

datatype Status = OK | NEXT | ABORT

definition get_double :: "Pool \<Rightarrow> InputTag \<Rightarrow> real option" where
  "get_double pool tag = (case pool tag of Some (Double d) \<Rightarrow> Some d | _ \<Rightarrow> None)"

definition get_LorentzVector :: "Pool \<Rightarrow> InputTag \<Rightarrow> LorentzVector option" where
  "get_LorentzVector pool tag = (case pool tag of Some (Vector v) \<Rightarrow> Some v | _ \<Rightarrow> None)"

subsection \<open>The module\<close>

text \<open>
  The members of the class: the module's name (given to the base class), the two input tags
  read from the parameters \<^verbatim>\<open>ps_point\<close> and \<^verbatim>\<open>reco_particle\<close>, and the two outputs
  produced under the module's own name.
\<close>

record Module =
  m_name :: string
  m_ps_point :: InputTag
  m_input :: InputTag

definition "output" :: "Module \<Rightarrow> InputTag" where
  "output m = (m_name m, ''output'')"

definition TF_times_jacobian :: "Module \<Rightarrow> InputTag" where
  "TF_times_jacobian m = (m_name m, ''TF_times_jacobian'')"

text \<open>
  \<^verbatim>\<open>work()\<close>: both inputs are read, the new angle is \<^verbatim>\<open>M_PI*ps_point\<close>, the four
  arguments of \<^verbatim>\<open>SetCoordinates\<close> are computed from the input read before the output is
  written, then the weight is written, and \<^verbatim>\<open>Status::OK\<close> is returned.
\<close>

definition work :: "Module \<Rightarrow> Pool \<Rightarrow> (Status \<times> Pool) option" where
  "work m pool =
     (case get_double pool (m_ps_point m) of
        None \<Rightarrow> None
      | Some ps_point \<Rightarrow>
          (case get_LorentzVector pool (m_input m) of
             None \<Rightarrow> None
           | Some reco_particle \<Rightarrow>
               (let new_theta = M_PI * ps_point;
                    pool1 = pool(output m \<mapsto> Vector (SetCoordinates
                      (P reco_particle * sin new_theta * cos (Phi reco_particle))
                      (P reco_particle * sin new_theta * sin (Phi reco_particle))
                      (P reco_particle * cos new_theta)
                      (E reco_particle)));
                    pool2 = pool1(TF_times_jacobian m \<mapsto> Double M_PI)
                in Some (OK, pool2))))"

text \<open>
  The same lines with the value of the macro as a parameter \<open>c\<close>, the macro being no part of
  the sources: \<open>work\<close> is the instance at \<^term>\<open>M_PI\<close>, and the program's own constant is the
  instance at \<^term>\<open>M_PI_double\<close>.
\<close>

definition work_at :: "real \<Rightarrow> Module \<Rightarrow> Pool \<Rightarrow> (Status \<times> Pool) option" where
  "work_at c m pool =
     (case get_double pool (m_ps_point m) of
        None \<Rightarrow> None
      | Some ps_point \<Rightarrow>
          (case get_LorentzVector pool (m_input m) of
             None \<Rightarrow> None
           | Some reco_particle \<Rightarrow>
               (let new_theta = c * ps_point;
                    pool1 = pool(output m \<mapsto> Vector (SetCoordinates
                      (P reco_particle * sin new_theta * cos (Phi reco_particle))
                      (P reco_particle * sin new_theta * sin (Phi reco_particle))
                      (P reco_particle * cos new_theta)
                      (E reco_particle)));
                    pool2 = pool1(TF_times_jacobian m \<mapsto> Double c)
                in Some (OK, pool2))))"

text \<open>\<^verbatim>\<open>dimensions()\<close>: a constant.\<close>

definition dimensions :: "Module \<Rightarrow> nat" where
  "dimensions m = 1"

text \<open>A module and a pool to run the theorems on.\<close>

definition tf_module :: Module where
  "tf_module = \<lparr>m_name = ''tf'', m_ps_point = (''cuba'', ''ps_points''), m_input = (''input'', ''p1'')\<rparr>"

definition pool_of :: "real \<Rightarrow> LorentzVector \<Rightarrow> Pool" where
  "pool_of u p = [(''cuba'', ''ps_points'') \<mapsto> Double u, (''input'', ''p1'') \<mapsto> Vector p]"

section \<open>Auxiliary facts\<close>

subsection \<open>The invocation as one pool update\<close>

lemma output_neq_TF: "output m \<noteq> TF_times_jacobian m"
  by (simp add: output_def TF_times_jacobian_def)

lemma work_Some:
  assumes "get_double pool (m_ps_point m) = Some u"
    and "get_LorentzVector pool (m_input m) = Some p"
  shows "work m pool = Some (OK,
     pool(output m \<mapsto> Vector (SetCoordinates
            (P p * sin (pi * u) * cos (Phi p))
            (P p * sin (pi * u) * sin (Phi p))
            (P p * cos (pi * u))
            (E p)),
          TF_times_jacobian m \<mapsto> Double pi))"
  using assms by (simp add: work_def Let_def M_PI_def)

lemma work_writes:
  assumes "get_double pool (m_ps_point m) = Some u"
    and "get_LorentzVector pool (m_input m) = Some p"
  shows "\<exists>pool'. work m pool = Some (OK, pool')
     \<and> get_LorentzVector pool' (output m) = Some (SetCoordinates
            (P p * sin (pi * u) * cos (Phi p))
            (P p * sin (pi * u) * sin (Phi p))
            (P p * cos (pi * u))
            (E p))
     \<and> get_double pool' (TF_times_jacobian m) = Some pi
     \<and> (\<forall>tag. tag \<noteq> output m \<and> tag \<noteq> TF_times_jacobian m \<longrightarrow> pool' tag = pool tag)"
  using work_Some [OF assms] output_neq_TF [of m]
  by (simp add: get_double_def get_LorentzVector_def)

text \<open>
  The arguments of \<^verbatim>\<open>SetCoordinates\<close> are evaluated before the call, so the vector written
  is computed from the input as it was read, also when the input tag names the module's
  own output slot. In that configuration, which the spec excludes (an input lives in
  storage owned by another module or by the sampler), the slot read as input holds the new
  vector afterwards.
\<close>

lemma work_aliased_input:
  assumes "get_double pool (m_ps_point m) = Some u"
    and "get_LorentzVector pool (m_input m) = Some p"
    and "m_input m = output m"
  shows "\<exists>pool'. work m pool = Some (OK, pool')
     \<and> get_LorentzVector pool' (m_input m) = Some (SetCoordinates
            (P p * sin (pi * u) * cos (Phi p))
            (P p * sin (pi * u) * sin (Phi p))
            (P p * cos (pi * u))
            (E p))"
  using work_writes [OF assms(1,2)] assms(3) by auto

lemma work_at_M_PI: "work_at M_PI m pool = work m pool"
  by (simp add: work_at_def work_def)

lemma work_at_writes:
  assumes "get_double pool (m_ps_point m) = Some u"
    and "get_LorentzVector pool (m_input m) = Some p"
  shows "\<exists>pool'. work_at c m pool = Some (OK, pool')
     \<and> get_LorentzVector pool' (output m) = Some (SetCoordinates
            (P p * sin (c * u) * cos (Phi p))
            (P p * sin (c * u) * sin (Phi p))
            (P p * cos (c * u))
            (E p))
     \<and> get_double pool' (TF_times_jacobian m) = Some c"
  using assms output_neq_TF [of m]
  by (simp add: work_at_def Let_def get_double_def get_LorentzVector_def)

lemma tf_module_inputs:
  "get_double (pool_of u p) (m_ps_point tf_module) = Some u"
  "get_LorentzVector (pool_of u p) (m_input tf_module) = Some p"
  by (simp_all add: get_double_def get_LorentzVector_def pool_of_def tf_module_def)

lemma stale_pool_inputs:
  "get_double ((pool_of u p)(output tf_module \<mapsto> v, (''other'', ''x'') \<mapsto> w)) (m_ps_point tf_module) = Some u"
  "get_LorentzVector ((pool_of u p)(output tf_module \<mapsto> v, (''other'', ''x'') \<mapsto> w)) (m_input tf_module) = Some p"
  by (simp_all add: get_double_def get_LorentzVector_def pool_of_def tf_module_def output_def)

lemma tf_module_no_alias:
  "m_input tf_module \<noteq> output tf_module \<and> m_input tf_module \<noteq> TF_times_jacobian tf_module
   \<and> m_ps_point tf_module \<noteq> output tf_module \<and> m_ps_point tf_module \<noteq> TF_times_jacobian tf_module"
  by (simp add: tf_module_def output_def TF_times_jacobian_def)

subsection \<open>Signs of sine and cosine on \<open>(-\<pi>, \<pi>]\<close>\<close>

lemma cos_pos_range:
  assumes "- pi < t" "t \<le> pi" "0 < cos t"
  shows "- (pi/2) < t \<and> t < pi/2"
proof -
  have "\<not> pi/2 \<le> t"
  proof
    assume "pi/2 \<le> t"
    then have "cos t \<le> cos (pi/2)" using assms(2) by (intro cos_monotone_0_pi_le) auto
    then show False using assms(3) by simp
  qed
  moreover have "\<not> t \<le> - (pi/2)"
  proof
    assume "t \<le> - (pi/2)"
    then have "cos (- t) \<le> cos (pi/2)" using assms(1) by (intro cos_monotone_0_pi_le) auto
    then show False using assms(3) by simp
  qed
  ultimately show ?thesis by simp
qed

lemma cos_neg_range:
  assumes "- pi < t" "t \<le> pi" "cos t < 0"
  shows "t < - (pi/2) \<or> pi/2 < t"
proof (rule ccontr)
  assume "\<not> (t < - (pi/2) \<or> pi/2 < t)"
  then have "0 \<le> cos t" by (intro cos_ge_zero) auto
  then show False using assms(3) by simp
qed

lemma cos_zero_range:
  assumes "- pi < t" "t \<le> pi" "cos t = 0"
  shows "t = - (pi/2) \<or> t = pi/2"
proof (rule ccontr)
  assume a: "\<not> (t = - (pi/2) \<or> t = pi/2)"
  consider "t < - (pi/2)" | "- (pi/2) < t" "t < pi/2" | "pi/2 < t" using a by linarith
  then show False
  proof cases
    case 1
    then have "cos (- t) < cos (pi/2)" using assms(1) by (intro cos_monotone_0_pi) auto
    then show False using assms(3) by simp
  next
    case 2
    then have "0 < cos t" by (rule cos_gt_zero_pi)
    then show False using assms(3) by simp
  next
    case 3
    then have "cos t < cos (pi/2)" using assms(2) by (intro cos_monotone_0_pi) auto
    then show False using assms(3) by simp
  qed
qed

lemma sin_sign_range:
  assumes "- pi < t" "t \<le> pi"
  shows "(0 \<le> sin t) = (0 \<le> t)"
proof (cases "0 \<le> t")
  case True
  then show ?thesis using assms(2) by (simp add: sin_ge_zero)
next
  case False
  then have "0 < sin (- t)" using assms(1) by (intro sin_gt_zero) auto
  then show ?thesis using False by simp
qed

subsection \<open>The two-argument arctangent\<close>

lemma atan2_range: "- pi < atan2 y x \<and> atan2 y x \<le> pi"
proof -
  have b: "- (pi/2) < arctan (y/x)" "arctan (y/x) < pi/2"
    by (rule arctan_lbound, rule arctan_ubound)
  have n: "x < 0 \<Longrightarrow> 0 \<le> y \<Longrightarrow> arctan (y/x) \<le> 0"
    by (simp add: divide_nonneg_neg)
  have p: "x < 0 \<Longrightarrow> y < 0 \<Longrightarrow> 0 < arctan (y/x)"
    by (simp add: divide_neg_neg)
  show ?thesis using b n p pi_gt_zero by (auto simp: atan2_def)
qed

lemma atan2_nonneg: "0 \<le> y \<Longrightarrow> 0 \<le> atan2 y x"
proof -
  assume y: "0 \<le> y"
  have b: "- (pi/2) < arctan (y/x)" by (rule arctan_lbound)
  have c: "0 < x \<Longrightarrow> 0 \<le> arctan (y/x)" using y by simp
  have d: "x < 0 \<Longrightarrow> 0 \<le> arctan (y/x) + pi" using b pi_gt_zero by linarith
  show ?thesis using c d y by (simp add: atan2_def)
qed

lemma atan2_polar:
  assumes r: "0 < r" and t: "- pi < t" "t \<le> pi"
  shows "atan2 (r * sin t) (r * cos t) = t"
proof -
  have q: "(r * sin t) / (r * cos t) = tan t" using r by (simp add: tan_def)
  have s: "(0 \<le> r * sin t) = (0 \<le> t)"
    using r sin_sign_range [OF t] by (simp add: zero_le_mult_iff)
  consider "0 < cos t" | "cos t < 0" "0 \<le> t" | "cos t < 0" "t < 0" | "cos t = 0"
    by linarith
  then show ?thesis
  proof cases
    case 1
    then have "arctan (tan t) = t" using cos_pos_range [OF t] by (simp add: arctan_tan)
    then show ?thesis using 1 r q by (simp add: atan2_def)
  next
    case 2
    then have "pi/2 < t" using cos_neg_range [OF t] pi_gt_zero by linarith
    then have "arctan (tan (t - pi)) = t - pi" using t by (intro arctan_tan) auto
    moreover have "tan (t - pi) = tan t" using tan_periodic_pi [of "t - pi"] by simp
    ultimately have "arctan (tan t) + pi = t" by simp
    moreover have "r * cos t < 0" using 2 r by (simp add: mult_pos_neg)
    ultimately show ?thesis using 2 q s by (simp add: atan2_def)
  next
    case 3
    then have "t < - (pi/2)" using cos_neg_range [OF t] pi_gt_zero by linarith
    then have "arctan (tan (t + pi)) = t + pi" using t by (intro arctan_tan) auto
    then have "arctan (tan t) - pi = t" by simp
    moreover have "r * cos t < 0" using 3 r by (simp add: mult_pos_neg)
    ultimately show ?thesis using 3 q s by (simp add: atan2_def)
  next
    case 4
    from cos_zero_range [OF t 4] show ?thesis
    proof
      assume e: "t = - (pi/2)"
      have "atan2 (r * sin (- (pi/2))) (r * cos (- (pi/2))) = - (pi/2)"
        using r by (simp add: atan2_def)
      then show ?thesis unfolding e .
    next
      assume e: "t = pi/2"
      have "atan2 (r * sin (pi/2)) (r * cos (pi/2)) = pi/2"
        using r by (simp add: atan2_def)
      then show ?thesis unfolding e .
    qed
  qed
qed

subsection \<open>Spherical coordinates of a four-momentum\<close>

lemma P_nonneg: "0 \<le> P v"
  by (simp add: P_def)

lemma Phi_range: "- pi < Phi v \<and> Phi v \<le> pi"
  using atan2_range [of "fY v" "fX v"] pi_gt_zero by (simp add: Phi_def)

lemma Theta_range: "0 \<le> Theta v \<and> Theta v \<le> pi"
  using atan2_range [of "Pt v" "fZ v"] atan2_nonneg [of "Pt v" "fZ v"] pi_gt_zero
  by (simp add: Theta_def Pt_def)

lemma E_SetCoordinates: "E (SetCoordinates a b c d) = d"
  by (simp add: E_def SetCoordinates_def)

lemma sum_squares:
  fixes a c s :: real
  shows "(a * c) * (a * c) + (a * s) * (a * s) = a * a * (c * c + s * s)"
  by (simp add: algebra_simps)

lemma sum_squares_polar:
  fixes r t f :: real
  shows "(r * sin t * cos f) * (r * sin t * cos f) + (r * sin t * sin f) * (r * sin t * sin f)
     = (r * sin t) * (r * sin t)"
  using sum_squares [of "r * sin t" "cos f" "sin f"] sin_cos_squared_add3 [of f] by simp

lemma Pt_polar:
  "Pt (SetCoordinates (r * sin t * cos f) (r * sin t * sin f) z e) = \<bar>r * sin t\<bar>"
  by (simp only: Pt_def SetCoordinates_def LorentzVector.simps sum_squares_polar
    real_sqrt_abs2)

lemma P_polar:
  "P (SetCoordinates (r * sin t * cos f) (r * sin t * sin f) (r * cos t) e) = \<bar>r\<bar>"
proof -
  have "(r * sin t) * (r * sin t) + (r * cos t) * (r * cos t) = r * r"
    using sum_squares [of r "sin t" "cos t"] sin_cos_squared_add3 [of t]
    by (simp add: add.commute)
  then show ?thesis
    by (simp only: P_def SetCoordinates_def LorentzVector.simps sum_squares_polar
      real_sqrt_abs2)
qed

lemma Phi_polar:
  assumes "0 < k" and "- pi < f" "f \<le> pi"
  shows "Phi (SetCoordinates (k * cos f) (k * sin f) z e) = f"
proof -
  have "k * cos f \<noteq> 0 \<or> k * sin f \<noteq> 0"
    using assms(1) sin_zero_abs_cos_one [of f] by auto
  then show ?thesis
    using atan2_polar [OF assms] by (auto simp: Phi_def SetCoordinates_def)
qed

lemma Phi_axis: "Phi (SetCoordinates 0 0 z e) = 0"
  by (simp add: Phi_def SetCoordinates_def)

lemma P_zero_iff: "P v = 0 \<longleftrightarrow> fX v = 0 \<and> fY v = 0 \<and> fZ v = 0"
proof
  assume "P v = 0"
  then have "fX v * fX v + fY v * fY v + fZ v * fZ v = 0" by (simp add: P_def)
  moreover have "0 \<le> fX v * fX v" "0 \<le> fY v * fY v" "0 \<le> fZ v * fZ v" by simp_all
  ultimately have "fX v * fX v = 0 \<and> fY v * fY v = 0 \<and> fZ v * fZ v = 0" by linarith
  then show "fX v = 0 \<and> fY v = 0 \<and> fZ v = 0" by simp
next
  assume "fX v = 0 \<and> fY v = 0 \<and> fZ v = 0"
  then show "P v = 0" by (simp add: P_def)
qed

lemma Phi_zero_momentum: "P v = 0 \<Longrightarrow> Phi v = 0"
  by (simp add: P_zero_iff Phi_def)

lemma Phi_on_x_axis:
  assumes "0 \<le> k"
  shows "Phi (SetCoordinates (k * cos 0) (k * sin 0) z e) = 0"
  using assms by (simp add: Phi_def SetCoordinates_def atan2_def)

lemma Theta_polar:
  assumes "0 < r" and "0 \<le> t" "t \<le> pi"
  shows "Theta (SetCoordinates (r * sin t * cos f) (r * sin t * sin f) (r * cos t) e) = t"
proof -
  let ?v = "SetCoordinates (r * sin t * cos f) (r * sin t * sin f) (r * cos t) e"
  have "0 \<le> sin t" using assms(2,3) by (rule sin_ge_zero)
  then have "0 \<le> r * sin t" using assms(1) by simp
  then have pt: "Pt ?v = r * sin t" by (simp only: Pt_polar abs_of_nonneg)
  have fz: "fZ ?v = r * cos t" by (simp add: SetCoordinates_def)
  have p: "P ?v = r" using assms(1) by (simp only: P_polar abs_of_pos)
  have nz: "\<not> (fX ?v = 0 \<and> fY ?v = 0 \<and> fZ ?v = 0)"
  proof
    assume "fX ?v = 0 \<and> fY ?v = 0 \<and> fZ ?v = 0"
    then have "P ?v = 0" unfolding P_def by simp
    then show False using p assms(1) by simp
  qed
  have "Theta ?v = atan2 (Pt ?v) (fZ ?v)" unfolding Theta_def using nz by (rule if_not_P)
  also have "\<dots> = atan2 (r * sin t) (r * cos t)" by (simp only: pt fz)
  also have "\<dots> = t"
  proof (rule atan2_polar)
    show "- pi < t" using assms(2) pi_gt_zero by linarith
  qed (use assms in auto)
  finally show ?thesis .
qed

lemma Theta_zero: "Theta (SetCoordinates 0 0 0 e) = 0"
  by (simp add: Theta_def SetCoordinates_def)

subsection \<open>The new angle\<close>

lemma sin_pi_mult_pos:
  assumes "0 < u" "u < 1"
  shows "0 < sin (pi * u)"
proof (rule sin_gt_zero)
  show "0 < pi * u" using assms(1) pi_gt_zero by simp
  have "pi * u < pi * 1" using assms(2) pi_gt_zero by (simp only: mult_less_cancel_left_pos)
  then show "pi * u < pi" by simp
qed

lemma sin_pi_mult_zero:
  assumes "0 \<le> u" "u \<le> 1" "\<not> (0 < u \<and> u < 1)"
  shows "sin (pi * u) = 0"
proof -
  have "u = 0 \<or> u = 1" using assms by linarith
  then show ?thesis by auto
qed

lemma pi_mult_range:
  assumes "0 \<le> u" "u \<le> 1"
  shows "0 \<le> pi * u \<and> pi * u \<le> pi"
proof
  show "0 \<le> pi * u" using assms(1) pi_gt_zero by simp
  have "pi * u \<le> pi * 1" using assms(2) pi_gt_zero by (simp only: mult_le_cancel_left_pos)
  then show "pi * u \<le> pi" by simp
qed

subsection \<open>The double constant lies below \<open>\<pi>\<close>\<close>

text \<open>
  The partial sums of the arctangent series with an even number of terms are lower bounds;
  Euler's formula \<open>\<pi>/4 = 5 arctan(1/7) + 2 arctan(3/79)\<close> with 12 and 6 terms gives a
  rational lower bound of \<open>\<pi>\<close> above the double constant.
\<close>

lemma arctan_lower:
  fixes x :: real
  assumes "0 \<le> x" "x \<le> 1"
  shows "(\<Sum>i<2*n. (-1)^i * (1 / real (i * 2 + 1) * x ^ (i * 2 + 1))) \<le> arctan x"
proof -
  let ?a = "\<lambda>n. 1 / real (n * 2 + 1) * x ^ (n * 2 + 1)"
  have z: "?a \<longlonglongrightarrow> 0" using assms by (intro zeroseq_arctan_series) simp
  have p: "\<And>n. 0 \<le> ?a n" using assms(1) by simp
  have m: "\<And>n. ?a (Suc n) \<le> ?a n"
  proof -
    fix n
    have "x ^ (Suc n * 2 + 1) \<le> x ^ (n * 2 + 1)"
      using assms by (intro power_decreasing) auto
    moreover have "1 / real (Suc n * 2 + 1) \<le> 1 / real (n * 2 + 1)"
      by (intro divide_left_mono) auto
    ultimately show "?a (Suc n) \<le> ?a n"
      using assms(1) by (intro mult_mono) auto
  qed
  have "(\<Sum>i<2*n. (-1)^i * ?a i) \<le> (\<Sum>i. (-1)^i * ?a i)"
    by (rule summable_Leibniz'(2) [OF z p m])
  also have "\<dots> = arctan x" using assms by (subst arctan_series) auto
  finally show ?thesis .
qed

lemma M_PI_double_less_series:
  "M_PI_double < 4 * (5 * (\<Sum>i<12. (-1)^i * (1 / real (i * 2 + 1) * (1/7::real) ^ (i * 2 + 1)))
     + 2 * (\<Sum>i<6. (-1)^i * (1 / real (i * 2 + 1) * (3/79::real) ^ (i * 2 + 1))))"
  unfolding M_PI_double_def
  by (simp add: sum.lessThan_Suc eval_nat_numeral)

lemma M_PI_double_less_pi: "M_PI_double < pi"
proof -
  have "(\<Sum>i<2*6. (-1)^i * (1 / real (i * 2 + 1) * (1/7::real) ^ (i * 2 + 1))) \<le> arctan (1/7)"
    by (rule arctan_lower) simp_all
  moreover have "(\<Sum>i<2*3. (-1)^i * (1 / real (i * 2 + 1) * (3/79::real) ^ (i * 2 + 1))) \<le> arctan (3/79)"
    by (rule arctan_lower) simp_all
  moreover have "pi = 4 * (5 * arctan (1/7) + 2 * arctan (3/79))"
    using machin_Euler by simp
  ultimately show ?thesis using M_PI_double_less_series by simp
qed

lemma sin_M_PI_double_pos: "0 < sin M_PI_double"
proof (rule sin_gt_zero)
  show "0 < M_PI_double" by (simp add: M_PI_double_def)
  show "M_PI_double < pi" by (rule M_PI_double_less_pi)
qed

subsection \<open>Two concrete four-momenta\<close>

lemma P_345: "P \<lparr>fX = 3, fY = 0, fZ = 4, fT = 5\<rparr> = 5"
proof -
  have "sqrt (5 * 5) = (5::real)" by (simp only: real_sqrt_abs2 abs_numeral)
  then show ?thesis by (simp add: P_def)
qed

lemma Phi_345: "Phi \<lparr>fX = 3, fY = 0, fZ = 4, fT = 5\<rparr> = 0"
  by (simp add: Phi_def atan2_def)

lemma Theta_345: "Theta \<lparr>fX = 3, fY = 0, fZ = 4, fT = 5\<rparr> = arctan (3/4)"
  by (simp add: Theta_def Pt_def atan2_def)

lemma P_435: "P \<lparr>fX = 4, fY = 0, fZ = 3, fT = 5\<rparr> = 5"
proof -
  have "sqrt (5 * 5) = (5::real)" by (simp only: real_sqrt_abs2 abs_numeral)
  then show ?thesis by (simp add: P_def)
qed

lemma Phi_435: "Phi \<lparr>fX = 4, fY = 0, fZ = 3, fT = 5\<rparr> = 0"
  by (simp add: Phi_def atan2_def)

lemma Theta_435: "Theta \<lparr>fX = 4, fY = 0, fZ = 3, fT = 5\<rparr> = arctan (4/3)"
  by (simp add: Theta_def Pt_def atan2_def)

section \<open>The claims\<close>

text \<open>
  C1. For every sampled scalar \<open>u\<close> in \<open>[0, 1]\<close> and every input four-momentum \<open>p\<close>, the
  invocation writes to the slot \<^verbatim>\<open>output\<close> the four-momentum with
  \<open>x = |p| sin(\<pi>u) cos(\<phi>(p))\<close>, \<open>y = |p| sin(\<pi>u) sin(\<phi>(p))\<close>, \<open>z = |p| cos(\<pi>u)\<close> and the energy
  of \<open>p\<close>.
\<close>

theorem work_output_components:
  assumes "get_double pool (m_ps_point m) = Some u"
    and "get_LorentzVector pool (m_input m) = Some p"
    and "0 \<le> u" and "u \<le> 1"
  shows "\<exists>st pool' q. work m pool = Some (st, pool')
     \<and> get_LorentzVector pool' (output m) = Some q
     \<and> fX q = P p * sin (pi * u) * cos (Phi p)
     \<and> fY q = P p * sin (pi * u) * sin (Phi p)
     \<and> fZ q = P p * cos (pi * u)
     \<and> E q = E p"
proof -
  from work_writes [OF assms(1,2)] obtain pool' where
    "work m pool = Some (OK, pool')"
    "get_LorentzVector pool' (output m) = Some (SetCoordinates
            (P p * sin (pi * u) * cos (Phi p))
            (P p * sin (pi * u) * sin (Phi p))
            (P p * cos (pi * u))
            (E p))"
    by blast
  then show ?thesis by (simp add: SetCoordinates_def E_def)
qed

theorem work_output_components_witness:
  "get_double (pool_of (1/2) \<lparr>fX = 3, fY = 0, fZ = 4, fT = 5\<rparr>) (m_ps_point tf_module) = Some (1/2)
   \<and> get_LorentzVector (pool_of (1/2) \<lparr>fX = 3, fY = 0, fZ = 4, fT = 5\<rparr>) (m_input tf_module)
       = Some \<lparr>fX = 3, fY = 0, fZ = 4, fT = 5\<rparr>
   \<and> (0::real) \<le> 1/2 \<and> (1/2::real) \<le> 1
   \<and> (\<exists>st pool' q. work tf_module (pool_of (1/2) \<lparr>fX = 3, fY = 0, fZ = 4, fT = 5\<rparr>) = Some (st, pool')
     \<and> get_LorentzVector pool' (output tf_module) = Some q
     \<and> fX q = 5 \<and> fY q = 0 \<and> fZ q = 0 \<and> E q = 5)"
  using work_output_components [OF tf_module_inputs, of "1/2" "\<lparr>fX = 3, fY = 0, fZ = 4, fT = 5\<rparr>"]
    tf_module_inputs [of "1/2" "\<lparr>fX = 3, fY = 0, fZ = 4, fT = 5\<rparr>"]
  by (simp add: P_345 Phi_345 E_def)

text \<open>
  C2, as amended. For every \<open>u\<close> in \<open>[0, 1]\<close> and every input \<open>p\<close>, in exact arithmetic: the
  output has the energy and the momentum magnitude of the input, and a polar angle in
  \<open>[0, \<pi>]\<close>; its polar angle is \<open>\<pi>u\<close> whenever \<open>|p| > 0\<close> or \<open>u = 0\<close>; its azimuthal angle
  is the input's whenever \<open>0 < u < 1\<close>, or the input's azimuthal angle is 0. Nothing is
  said of the azimuthal angle at \<open>u = 0\<close> and \<open>u = 1\<close> otherwise, nor of the polar angle of
  an input without momentum at \<open>u > 0\<close>.
\<close>

theorem work_preserves:
  assumes "get_double pool (m_ps_point m) = Some u"
    and "get_LorentzVector pool (m_input m) = Some p"
    and "0 \<le> u" and "u \<le> 1"
  shows "\<exists>st pool' q. work m pool = Some (st, pool')
     \<and> get_LorentzVector pool' (output m) = Some q
     \<and> E q = E p
     \<and> P q = P p
     \<and> (0 < u \<and> u < 1 \<or> Phi p = 0 \<longrightarrow> Phi q = Phi p)
     \<and> (0 < P p \<or> u = 0 \<longrightarrow> Theta q = pi * u)
     \<and> 0 \<le> Theta q \<and> Theta q \<le> pi"
proof -
  let ?q = "SetCoordinates
            (P p * sin (pi * u) * cos (Phi p))
            (P p * sin (pi * u) * sin (Phi p))
            (P p * cos (pi * u))
            (E p)"
  from work_writes [OF assms(1,2)] obtain pool' where w:
    "work m pool = Some (OK, pool')" "get_LorentzVector pool' (output m) = Some ?q"
    by blast
  have e: "E ?q = E p" by (rule E_SetCoordinates)
  have "P ?q = \<bar>P p\<bar>" by (rule P_polar)
  then have mag: "P ?q = P p" using P_nonneg [of p] by simp
  have s: "0 \<le> sin (pi * u)" using pi_mult_range [OF assms(3,4)] by (intro sin_ge_zero) auto
  have az: "0 < u \<and> u < 1 \<or> Phi p = 0 \<longrightarrow> Phi ?q = Phi p"
  proof
    assume a: "0 < u \<and> u < 1 \<or> Phi p = 0"
    show "Phi ?q = Phi p"
    proof (cases "Phi p = 0")
      case True
      have "0 \<le> P p * sin (pi * u)" using P_nonneg [of p] s by simp
      then have "Phi (SetCoordinates (P p * sin (pi * u) * cos 0) (P p * sin (pi * u) * sin 0)
          (P p * cos (pi * u)) (E p)) = 0"
        by (rule Phi_on_x_axis)
      then show ?thesis by (simp only: True)
    next
      case False
      then have u: "0 < u" "u < 1" using a by auto
      have "P p \<noteq> 0" using False Phi_zero_momentum [of p] by blast
      then have "0 < P p" using P_nonneg [of p] by simp
      then have "0 < P p * sin (pi * u)" using sin_pi_mult_pos [OF u] by simp
      then show ?thesis using Phi_range [of p] by (intro Phi_polar) auto
    qed
  qed
  have pol: "0 < P p \<or> u = 0 \<longrightarrow> Theta ?q = pi * u"
  proof
    assume a: "0 < P p \<or> u = 0"
    show "Theta ?q = pi * u"
    proof (cases "0 < P p")
      case True
      then show ?thesis using pi_mult_range [OF assms(3,4)] by (intro Theta_polar) auto
    next
      case False
      then have k: "P p = 0" using P_nonneg [of p] by simp
      have "Theta ?q = 0" by (simp only: k mult_zero_left Theta_zero)
      moreover have "u = 0" using a False by simp
      ultimately show ?thesis by simp
    qed
  qed
  show ?thesis using w e mag az pol Theta_range [of ?q] by blast
qed

theorem work_preserves_witness:
  "get_double (pool_of (1/2) \<lparr>fX = 3, fY = 0, fZ = 4, fT = 5\<rparr>) (m_ps_point tf_module) = Some (1/2)
   \<and> get_LorentzVector (pool_of (1/2) \<lparr>fX = 3, fY = 0, fZ = 4, fT = 5\<rparr>) (m_input tf_module)
       = Some \<lparr>fX = 3, fY = 0, fZ = 4, fT = 5\<rparr>
   \<and> (0::real) \<le> 1/2 \<and> (1/2::real) \<le> 1
   \<and> (0::real) < 1/2 \<and> (1/2::real) < 1 \<and> 0 < P \<lparr>fX = 3, fY = 0, fZ = 4, fT = 5\<rparr>
   \<and> (\<exists>st pool' q. work tf_module (pool_of (1/2) \<lparr>fX = 3, fY = 0, fZ = 4, fT = 5\<rparr>) = Some (st, pool')
     \<and> get_LorentzVector pool' (output tf_module) = Some q
     \<and> E q = 5 \<and> P q = 5 \<and> Phi q = 0 \<and> Theta q = pi / 2)"
  using work_preserves [OF tf_module_inputs, of "1/2" "\<lparr>fX = 3, fY = 0, fZ = 4, fT = 5\<rparr>"]
    tf_module_inputs [of "1/2" "\<lparr>fX = 3, fY = 0, fZ = 4, fT = 5\<rparr>"]
  by (simp add: P_345 Phi_345 E_def) blast

text \<open>
  C2 as stated fails at \<open>u = 0\<close>, \<open>p = (px, py, pz, E) = (0, 1, 0, 1)\<close>: the sine of the new
  angle is 0, the output is \<open>(0, 0, 1, 1)\<close> on the z-axis with azimuthal angle 0, while
  the input's azimuthal angle is \<open>\<pi>/2\<close>. In the program's own arithmetic the run is the
  same: \<^verbatim>\<open>M_PI*0.0\<close>, \<^verbatim>\<open>std::sin(0.0)\<close> and the two products by it are exactly zero.
  At \<open>u = 1\<close> the two readings of the constant part: with \<open>\<pi>\<close> the output is on the z-axis
  as well, with the double constant its transverse part is the input's direction times
  a positive sine. The amended claim leaves \<open>u = 1\<close> out.
\<close>

theorem work_azimuth_counterexample:
  "(0::real) \<le> 0 \<and> (0::real) \<le> 1
   \<and> work tf_module (pool_of 0 \<lparr>fX = 0, fY = 1, fZ = 0, fT = 1\<rparr>)
       = Some (OK, (pool_of 0 \<lparr>fX = 0, fY = 1, fZ = 0, fT = 1\<rparr>)
           (output tf_module \<mapsto> Vector \<lparr>fX = 0, fY = 0, fZ = 1, fT = 1\<rparr>,
            TF_times_jacobian tf_module \<mapsto> Double pi))
   \<and> Phi \<lparr>fX = 0, fY = 0, fZ = 1, fT = 1\<rparr> = 0
   \<and> Phi \<lparr>fX = 0, fY = 1, fZ = 0, fT = 1\<rparr> = pi / 2
   \<and> Phi \<lparr>fX = 0, fY = 0, fZ = 1, fT = 1\<rparr> \<noteq> Phi \<lparr>fX = 0, fY = 1, fZ = 0, fT = 1\<rparr>"
proof -
  have w: "work tf_module (pool_of 0 \<lparr>fX = 0, fY = 1, fZ = 0, fT = 1\<rparr>)
       = Some (OK, (pool_of 0 \<lparr>fX = 0, fY = 1, fZ = 0, fT = 1\<rparr>)
           (output tf_module \<mapsto> Vector \<lparr>fX = 0, fY = 0, fZ = 1, fT = 1\<rparr>,
            TF_times_jacobian tf_module \<mapsto> Double pi))"
    using work_Some [OF tf_module_inputs, of 0 "\<lparr>fX = 0, fY = 1, fZ = 0, fT = 1\<rparr>"]
    by (simp add: SetCoordinates_def P_def E_def)
  have a: "Phi \<lparr>fX = 0, fY = 0, fZ = 1, fT = 1\<rparr> = 0" by (simp add: Phi_def)
  have b: "Phi \<lparr>fX = 0, fY = 1, fZ = 0, fT = 1\<rparr> = pi / 2" by (simp add: Phi_def atan2_def)
  have c: "Phi \<lparr>fX = 0, fY = 0, fZ = 1, fT = 1\<rparr> \<noteq> Phi \<lparr>fX = 0, fY = 1, fZ = 0, fT = 1\<rparr>"
    unfolding a b using pi_gt_zero by simp
  have r: "(0::real) \<le> 0 \<and> (0::real) \<le> 1" by simp
  from r w a b c show ?thesis by blast
qed

text \<open>
  With the double constant the azimuthal angle survives at \<open>u = 1\<close> for every input with
  momentum, as it does in the program.
\<close>

lemma work_at_double_keeps_azimuth:
  assumes "get_double pool (m_ps_point m) = Some 1"
    and "get_LorentzVector pool (m_input m) = Some p"
    and "0 < P p"
  shows "\<exists>pool' q. work_at M_PI_double m pool = Some (OK, pool')
     \<and> get_LorentzVector pool' (output m) = Some q \<and> Phi q = Phi p"
proof -
  let ?q = "SetCoordinates
            (P p * sin (M_PI_double * 1) * cos (Phi p))
            (P p * sin (M_PI_double * 1) * sin (Phi p))
            (P p * cos (M_PI_double * 1))
            (E p)"
  from work_at_writes [OF assms(1,2), of M_PI_double] obtain pool' where w:
    "work_at M_PI_double m pool = Some (OK, pool')"
    "get_LorentzVector pool' (output m) = Some ?q"
    by blast
  have "0 < P p * sin (M_PI_double * 1)" using assms(3) sin_M_PI_double_pos by simp
  then have "Phi ?q = Phi p" using Phi_range [of p] by (intro Phi_polar) auto
  then show ?thesis using w by blast
qed

text \<open>
  The polar angle: an input without momentum gives the zero vector, whose polar angle is 0
  and not \<open>\<pi>u\<close>, here at \<open>u = 1/2\<close>. In the program's own arithmetic the products by 0.0 are
  exact.
\<close>

lemma work_zero_momentum:
  "work tf_module (pool_of (1/2) \<lparr>fX = 0, fY = 0, fZ = 0, fT = 1\<rparr>)
       = Some (OK, (pool_of (1/2) \<lparr>fX = 0, fY = 0, fZ = 0, fT = 1\<rparr>)
           (output tf_module \<mapsto> Vector \<lparr>fX = 0, fY = 0, fZ = 0, fT = 1\<rparr>,
            TF_times_jacobian tf_module \<mapsto> Double pi))
   \<and> Theta \<lparr>fX = 0, fY = 0, fZ = 0, fT = 1\<rparr> = 0
   \<and> Theta \<lparr>fX = 0, fY = 0, fZ = 0, fT = 1\<rparr> \<noteq> pi * (1/2)"
proof -
  have w: "work tf_module (pool_of (1/2) \<lparr>fX = 0, fY = 0, fZ = 0, fT = 1\<rparr>)
       = Some (OK, (pool_of (1/2) \<lparr>fX = 0, fY = 0, fZ = 0, fT = 1\<rparr>)
           (output tf_module \<mapsto> Vector \<lparr>fX = 0, fY = 0, fZ = 0, fT = 1\<rparr>,
            TF_times_jacobian tf_module \<mapsto> Double pi))"
    using work_Some [OF tf_module_inputs, of "1/2" "\<lparr>fX = 0, fY = 0, fZ = 0, fT = 1\<rparr>"]
    by (simp add: SetCoordinates_def P_def E_def)
  have a: "Theta \<lparr>fX = 0, fY = 0, fZ = 0, fT = 1\<rparr> = 0" by (simp add: Theta_def)
  have b: "Theta \<lparr>fX = 0, fY = 0, fZ = 0, fT = 1\<rparr> \<noteq> pi * (1/2)"
    unfolding a using pi_gt_zero by simp
  from w a b show ?thesis by blast
qed

text \<open>
  The failure does not depend on the convention for the azimuthal angle of a vector on the
  z-axis: at \<open>u = 0\<close> the inputs \<open>(1, 0, 0, 1)\<close> and \<open>(0, 1, 0, 1)\<close> give the same output, so
  no function of the output can return the azimuthal angle of both.
\<close>

lemma azimuth_not_preserved_on_axis:
  fixes az :: "LorentzVector \<Rightarrow> real"
  assumes "az \<lparr>fX = 1, fY = 0, fZ = 0, fT = 1\<rparr> \<noteq> az \<lparr>fX = 0, fY = 1, fZ = 0, fT = 1\<rparr>"
  shows "\<exists>p pool'. work tf_module (pool_of 0 p) = Some (OK, pool')
     \<and> map_option az (get_LorentzVector pool' (output tf_module)) \<noteq> Some (az p)"
proof -
  have w1: "work tf_module (pool_of 0 \<lparr>fX = 1, fY = 0, fZ = 0, fT = 1\<rparr>)
       = Some (OK, (pool_of 0 \<lparr>fX = 1, fY = 0, fZ = 0, fT = 1\<rparr>)
           (output tf_module \<mapsto> Vector \<lparr>fX = 0, fY = 0, fZ = 1, fT = 1\<rparr>,
            TF_times_jacobian tf_module \<mapsto> Double pi))"
    using work_Some [OF tf_module_inputs, of 0 "\<lparr>fX = 1, fY = 0, fZ = 0, fT = 1\<rparr>"]
    by (simp add: SetCoordinates_def P_def E_def)
  have w2: "work tf_module (pool_of 0 \<lparr>fX = 0, fY = 1, fZ = 0, fT = 1\<rparr>)
       = Some (OK, (pool_of 0 \<lparr>fX = 0, fY = 1, fZ = 0, fT = 1\<rparr>)
           (output tf_module \<mapsto> Vector \<lparr>fX = 0, fY = 0, fZ = 1, fT = 1\<rparr>,
            TF_times_jacobian tf_module \<mapsto> Double pi))"
    using work_Some [OF tf_module_inputs, of 0 "\<lparr>fX = 0, fY = 1, fZ = 0, fT = 1\<rparr>"]
    by (simp add: SetCoordinates_def P_def E_def)
  have g: "\<And>pool. get_LorentzVector (pool(output tf_module \<mapsto> Vector \<lparr>fX = 0, fY = 0, fZ = 1, fT = 1\<rparr>,
            TF_times_jacobian tf_module \<mapsto> Double pi)) (output tf_module)
        = Some \<lparr>fX = 0, fY = 0, fZ = 1, fT = 1\<rparr>"
    using output_neq_TF [of tf_module] by (simp add: get_LorentzVector_def)
  show ?thesis
  proof (cases "az \<lparr>fX = 0, fY = 0, fZ = 1, fT = 1\<rparr> = az \<lparr>fX = 1, fY = 0, fZ = 0, fT = 1\<rparr>")
    case True
    then have "map_option az (Some \<lparr>fX = 0, fY = 0, fZ = 1, fT = 1\<rparr>)
        \<noteq> Some (az \<lparr>fX = 0, fY = 1, fZ = 0, fT = 1\<rparr>)"
      using assms by simp
    then show ?thesis using w2 g by metis
  next
    case False
    then have "map_option az (Some \<lparr>fX = 0, fY = 0, fZ = 1, fT = 1\<rparr>)
        \<noteq> Some (az \<lparr>fX = 1, fY = 0, fZ = 0, fT = 1\<rparr>)"
      by simp
    then show ?thesis using w1 g by metis
  qed
qed

text \<open>
  C3. Whatever scalar and four-momentum the inputs hold, the invocation writes the weight
  \<open>\<pi>\<close> to the slot \<^verbatim>\<open>TF_times_jacobian\<close>.
\<close>

theorem work_weight_is_pi:
  assumes "get_double pool (m_ps_point m) = Some u"
    and "get_LorentzVector pool (m_input m) = Some p"
  shows "\<exists>st pool'. work m pool = Some (st, pool')
           \<and> get_double pool' (TF_times_jacobian m) = Some pi"
  using work_Some [OF assms] by (simp add: get_double_def)

theorem work_weight_is_pi_witness:
  "get_double (pool_of (1/2) \<lparr>fX = 3, fY = 0, fZ = 4, fT = 5\<rparr>) (m_ps_point tf_module) = Some (1/2)
   \<and> get_LorentzVector (pool_of (1/2) \<lparr>fX = 3, fY = 0, fZ = 4, fT = 5\<rparr>) (m_input tf_module)
       = Some \<lparr>fX = 3, fY = 0, fZ = 4, fT = 5\<rparr>
   \<and> (\<exists>st pool'. work tf_module (pool_of (1/2) \<lparr>fX = 3, fY = 0, fZ = 4, fT = 5\<rparr>) = Some (st, pool')
           \<and> get_double pool' (TF_times_jacobian tf_module) = Some pi)"
  using work_weight_is_pi [OF tf_module_inputs, of "1/2" "\<lparr>fX = 3, fY = 0, fZ = 4, fT = 5\<rparr>"]
    tf_module_inputs [of "1/2" "\<lparr>fX = 3, fY = 0, fZ = 4, fT = 5\<rparr>"]
  by simp

text \<open>
  C4. The dimensionality query answers 1 for every instance of the module; it takes no
  input and reads no pool, so no invocation can change its answer.
\<close>

theorem dimensions_is_one: "dimensions m = 1"
  by (simp add: dimensions_def)

text \<open>
  C5. Whatever scalar and four-momentum the inputs hold, the invocation returns the
  status \<open>OK\<close>.
\<close>

theorem work_returns_OK:
  assumes "get_double pool (m_ps_point m) = Some u"
    and "get_LorentzVector pool (m_input m) = Some p"
  shows "\<exists>pool'. work m pool = Some (OK, pool')"
  using work_Some [OF assms] by simp

theorem work_returns_OK_witness:
  "get_double (pool_of 0 \<lparr>fX = 0, fY = 1, fZ = 0, fT = 1\<rparr>) (m_ps_point tf_module) = Some 0
   \<and> get_LorentzVector (pool_of 0 \<lparr>fX = 0, fY = 1, fZ = 0, fT = 1\<rparr>) (m_input tf_module)
       = Some \<lparr>fX = 0, fY = 1, fZ = 0, fT = 1\<rparr>
   \<and> (\<exists>pool'. work tf_module (pool_of 0 \<lparr>fX = 0, fY = 1, fZ = 0, fT = 1\<rparr>) = Some (OK, pool'))"
  using work_returns_OK [OF tf_module_inputs, of 0 "\<lparr>fX = 0, fY = 1, fZ = 0, fT = 1\<rparr>"]
    tf_module_inputs [of 0 "\<lparr>fX = 0, fY = 1, fZ = 0, fT = 1\<rparr>"]
  by simp




text \<open>
  C7. Two invocations whose inputs hold the same scalar and the same four-momentum return
  the same status and write the same four-momentum and the same weight, whatever else the
  two pools hold (values left by earlier invocations included) and whichever instances run.
\<close>

theorem work_deterministic:
  assumes "get_double pool1 (m_ps_point m1) = Some u"
    and "get_LorentzVector pool1 (m_input m1) = Some p"
    and "get_double pool2 (m_ps_point m2) = Some u"
    and "get_LorentzVector pool2 (m_input m2) = Some p"
  shows "\<exists>st pool1' pool2'. work m1 pool1 = Some (st, pool1') \<and> work m2 pool2 = Some (st, pool2')
     \<and> pool1' (output m1) = pool2' (output m2)
     \<and> pool1' (TF_times_jacobian m1) = pool2' (TF_times_jacobian m2)"
  using work_Some [OF assms(1,2)] work_Some [OF assms(3,4)]
    output_neq_TF [of m1] output_neq_TF [of m2]
  by simp

theorem work_deterministic_witness:
  "get_double (pool_of (1/2) \<lparr>fX = 3, fY = 0, fZ = 4, fT = 5\<rparr>) (m_ps_point tf_module) = Some (1/2)
   \<and> get_LorentzVector (pool_of (1/2) \<lparr>fX = 3, fY = 0, fZ = 4, fT = 5\<rparr>) (m_input tf_module)
       = Some \<lparr>fX = 3, fY = 0, fZ = 4, fT = 5\<rparr>
   \<and> get_double ((pool_of (1/2) \<lparr>fX = 3, fY = 0, fZ = 4, fT = 5\<rparr>)
         (output tf_module \<mapsto> Vector \<lparr>fX = 1, fY = 2, fZ = 3, fT = 4\<rparr>, (''other'', ''x'') \<mapsto> Double 7))
       (m_ps_point tf_module) = Some (1/2)
   \<and> get_LorentzVector ((pool_of (1/2) \<lparr>fX = 3, fY = 0, fZ = 4, fT = 5\<rparr>)
         (output tf_module \<mapsto> Vector \<lparr>fX = 1, fY = 2, fZ = 3, fT = 4\<rparr>, (''other'', ''x'') \<mapsto> Double 7))
       (m_input tf_module) = Some \<lparr>fX = 3, fY = 0, fZ = 4, fT = 5\<rparr>
   \<and> (\<exists>st pool1' pool2'.
         work tf_module (pool_of (1/2) \<lparr>fX = 3, fY = 0, fZ = 4, fT = 5\<rparr>) = Some (st, pool1')
       \<and> work tf_module ((pool_of (1/2) \<lparr>fX = 3, fY = 0, fZ = 4, fT = 5\<rparr>)
            (output tf_module \<mapsto> Vector \<lparr>fX = 1, fY = 2, fZ = 3, fT = 4\<rparr>, (''other'', ''x'') \<mapsto> Double 7))
           = Some (st, pool2')
       \<and> pool1' (output tf_module) = pool2' (output tf_module)
       \<and> pool1' (TF_times_jacobian tf_module) = pool2' (TF_times_jacobian tf_module))"
  using work_deterministic [OF tf_module_inputs stale_pool_inputs,
      of "1/2" "\<lparr>fX = 3, fY = 0, fZ = 4, fT = 5\<rparr>"
         "Vector \<lparr>fX = 1, fY = 2, fZ = 3, fT = 4\<rparr>" "Double 7"]
    tf_module_inputs [of "1/2" "\<lparr>fX = 3, fY = 0, fZ = 4, fT = 5\<rparr>"]
    stale_pool_inputs [of "1/2" "\<lparr>fX = 3, fY = 0, fZ = 4, fT = 5\<rparr>"
         "Vector \<lparr>fX = 1, fY = 2, fZ = 3, fT = 4\<rparr>" "Double 7"]
  by blast

text \<open>
  C8. An invocation changes no slot of the pool other than \<^verbatim>\<open>output\<close> and
  \<^verbatim>\<open>TF_times_jacobian\<close>. In particular the inputs, which per the spec live in storage
  owned by other modules or by the sampler, hold the same values afterwards, and a second
  invocation on the resulting pool returns the same status and leaves the pool as it is:
  nothing but the two outputs is carried from one invocation to the next. The module
  record itself is not written: \<open>work\<close> returns a status and a pool only.
\<close>

theorem work_frame:
  assumes "get_double pool (m_ps_point m) = Some u"
    and "get_LorentzVector pool (m_input m) = Some p"
  shows "\<exists>st pool'. work m pool = Some (st, pool')
     \<and> (\<forall>tag. tag \<noteq> output m \<and> tag \<noteq> TF_times_jacobian m \<longrightarrow> pool' tag = pool tag)
     \<and> (m_input m \<noteq> output m \<and> m_input m \<noteq> TF_times_jacobian m
          \<longrightarrow> get_LorentzVector pool' (m_input m) = Some p)
     \<and> (m_ps_point m \<noteq> output m \<and> m_ps_point m \<noteq> TF_times_jacobian m
          \<longrightarrow> get_double pool' (m_ps_point m) = Some u)
     \<and> (m_input m \<noteq> output m \<and> m_input m \<noteq> TF_times_jacobian m
          \<and> m_ps_point m \<noteq> output m \<and> m_ps_point m \<noteq> TF_times_jacobian m
          \<longrightarrow> work m pool' = Some (st, pool'))"
proof -
  let ?pool' = "pool(output m \<mapsto> Vector (SetCoordinates
            (P p * sin (pi * u) * cos (Phi p))
            (P p * sin (pi * u) * sin (Phi p))
            (P p * cos (pi * u))
            (E p)),
          TF_times_jacobian m \<mapsto> Double pi)"
  have w: "work m pool = Some (OK, ?pool')" by (rule work_Some [OF assms])
  have f: "\<forall>tag. tag \<noteq> output m \<and> tag \<noteq> TF_times_jacobian m \<longrightarrow> ?pool' tag = pool tag"
    by simp
  have i: "m_input m \<noteq> output m \<and> m_input m \<noteq> TF_times_jacobian m
          \<longrightarrow> get_LorentzVector ?pool' (m_input m) = Some p"
    using assms(2) by (simp add: get_LorentzVector_def)
  have s: "m_ps_point m \<noteq> output m \<and> m_ps_point m \<noteq> TF_times_jacobian m
          \<longrightarrow> get_double ?pool' (m_ps_point m) = Some u"
    using assms(1) by (simp add: get_double_def)
  have r: "m_input m \<noteq> output m \<and> m_input m \<noteq> TF_times_jacobian m
          \<and> m_ps_point m \<noteq> output m \<and> m_ps_point m \<noteq> TF_times_jacobian m
          \<longrightarrow> work m ?pool' = Some (OK, ?pool')"
  proof
    assume a: "m_input m \<noteq> output m \<and> m_input m \<noteq> TF_times_jacobian m
          \<and> m_ps_point m \<noteq> output m \<and> m_ps_point m \<noteq> TF_times_jacobian m"
    have "get_double ?pool' (m_ps_point m) = Some u" using a s by blast
    moreover have "get_LorentzVector ?pool' (m_input m) = Some p" using a i by blast
    ultimately have "work m ?pool' = Some (OK, ?pool'(output m \<mapsto> Vector (SetCoordinates
            (P p * sin (pi * u) * cos (Phi p))
            (P p * sin (pi * u) * sin (Phi p))
            (P p * cos (pi * u))
            (E p)),
          TF_times_jacobian m \<mapsto> Double pi))"
      by (rule work_Some)
    moreover have "?pool'(output m \<mapsto> Vector (SetCoordinates
            (P p * sin (pi * u) * cos (Phi p))
            (P p * sin (pi * u) * sin (Phi p))
            (P p * cos (pi * u))
            (E p)),
          TF_times_jacobian m \<mapsto> Double pi) = ?pool'"
      using output_neq_TF [of m] by (auto simp: fun_eq_iff)
    ultimately show "work m ?pool' = Some (OK, ?pool')" by simp
  qed
  from w f i s r show ?thesis by blast
qed

theorem work_frame_witness:
  "get_double (pool_of (1/2) \<lparr>fX = 3, fY = 0, fZ = 4, fT = 5\<rparr>) (m_ps_point tf_module) = Some (1/2)
   \<and> get_LorentzVector (pool_of (1/2) \<lparr>fX = 3, fY = 0, fZ = 4, fT = 5\<rparr>) (m_input tf_module)
       = Some \<lparr>fX = 3, fY = 0, fZ = 4, fT = 5\<rparr>
   \<and> m_input tf_module \<noteq> output tf_module \<and> m_input tf_module \<noteq> TF_times_jacobian tf_module
   \<and> m_ps_point tf_module \<noteq> output tf_module \<and> m_ps_point tf_module \<noteq> TF_times_jacobian tf_module
   \<and> (\<exists>st pool'. work tf_module (pool_of (1/2) \<lparr>fX = 3, fY = 0, fZ = 4, fT = 5\<rparr>) = Some (st, pool')
       \<and> pool' (''cuba'', ''ps_points'') = Some (Double (1/2))
       \<and> pool' (''input'', ''p1'') = Some (Vector \<lparr>fX = 3, fY = 0, fZ = 4, fT = 5\<rparr>)
       \<and> pool' (''other'', ''x'') = None
       \<and> get_LorentzVector pool' (m_input tf_module) = Some \<lparr>fX = 3, fY = 0, fZ = 4, fT = 5\<rparr>
       \<and> get_double pool' (m_ps_point tf_module) = Some (1/2)
       \<and> work tf_module pool' = Some (st, pool'))"
proof -
  from work_frame [OF tf_module_inputs, of "1/2" "\<lparr>fX = 3, fY = 0, fZ = 4, fT = 5\<rparr>"]
  obtain st pool' where
    w: "work tf_module (pool_of (1/2) \<lparr>fX = 3, fY = 0, fZ = 4, fT = 5\<rparr>) = Some (st, pool')"
    and f: "\<forall>tag. tag \<noteq> output tf_module \<and> tag \<noteq> TF_times_jacobian tf_module
          \<longrightarrow> pool' tag = pool_of (1/2) \<lparr>fX = 3, fY = 0, fZ = 4, fT = 5\<rparr> tag"
    and i: "m_input tf_module \<noteq> output tf_module \<and> m_input tf_module \<noteq> TF_times_jacobian tf_module
          \<longrightarrow> get_LorentzVector pool' (m_input tf_module) = Some \<lparr>fX = 3, fY = 0, fZ = 4, fT = 5\<rparr>"
    and s: "m_ps_point tf_module \<noteq> output tf_module \<and> m_ps_point tf_module \<noteq> TF_times_jacobian tf_module
          \<longrightarrow> get_double pool' (m_ps_point tf_module) = Some (1/2)"
    and r: "m_input tf_module \<noteq> output tf_module \<and> m_input tf_module \<noteq> TF_times_jacobian tf_module
          \<and> m_ps_point tf_module \<noteq> output tf_module \<and> m_ps_point tf_module \<noteq> TF_times_jacobian tf_module
          \<longrightarrow> work tf_module pool' = Some (st, pool')"
    by blast
  have a: "pool' (''cuba'', ''ps_points'') = Some (Double (1/2))"
    using f by (simp add: pool_of_def tf_module_def output_def TF_times_jacobian_def)
  have b: "pool' (''input'', ''p1'') = Some (Vector \<lparr>fX = 3, fY = 0, fZ = 4, fT = 5\<rparr>)"
    using f by (simp add: pool_of_def tf_module_def output_def TF_times_jacobian_def)
  have c: "pool' (''other'', ''x'') = None"
    using f by (simp add: pool_of_def tf_module_def output_def TF_times_jacobian_def)
  from w a b c i s r tf_module_no_alias
    tf_module_inputs [of "1/2" "\<lparr>fX = 3, fY = 0, fZ = 4, fT = 5\<rparr>"]
  show ?thesis by blast
qed

text \<open>
  C9. For every scalar \<open>u\<close>, inside \<open>[0, 1]\<close> or not, and every input four-momentum the
  invocation returns \<open>OK\<close>, having written the four-momentum computed from the angle
  \<open>\<pi>u\<close> by the same formula (no validation, no clamping) and the weight \<open>\<pi>\<close>.
\<close>

theorem work_total_unvalidated:
  assumes "get_double pool (m_ps_point m) = Some u"
    and "get_LorentzVector pool (m_input m) = Some p"
  shows "\<exists>pool'. work m pool = Some (OK, pool')
     \<and> get_LorentzVector pool' (output m) = Some (SetCoordinates
            (P p * sin (pi * u) * cos (Phi p))
            (P p * sin (pi * u) * sin (Phi p))
            (P p * cos (pi * u))
            (E p))
     \<and> get_double pool' (TF_times_jacobian m) = Some pi"
  using work_Some [OF assms] output_neq_TF [of m]
  by (simp add: get_double_def get_LorentzVector_def)

theorem work_total_unvalidated_witness:
  "get_double (pool_of 2 \<lparr>fX = 3, fY = 0, fZ = 4, fT = 5\<rparr>) (m_ps_point tf_module) = Some 2
   \<and> get_LorentzVector (pool_of 2 \<lparr>fX = 3, fY = 0, fZ = 4, fT = 5\<rparr>) (m_input tf_module)
       = Some \<lparr>fX = 3, fY = 0, fZ = 4, fT = 5\<rparr>
   \<and> (1::real) < 2
   \<and> (\<exists>pool'. work tf_module (pool_of 2 \<lparr>fX = 3, fY = 0, fZ = 4, fT = 5\<rparr>) = Some (OK, pool')
     \<and> get_LorentzVector pool' (output tf_module) = Some \<lparr>fX = 0, fY = 0, fZ = 5, fT = 5\<rparr>
     \<and> get_double pool' (TF_times_jacobian tf_module) = Some pi)"
  using work_total_unvalidated [OF tf_module_inputs, of 2 "\<lparr>fX = 3, fY = 0, fZ = 4, fT = 5\<rparr>"]
    tf_module_inputs [of 2 "\<lparr>fX = 3, fY = 0, fZ = 4, fT = 5\<rparr>"]
  by (simp add: P_345 Phi_345 E_def SetCoordinates_def)

text \<open>
  C10. For the same scalar, two input four-momenta with the same energy, momentum magnitude
  and azimuthal angle give the same output four-momentum and the same weight, whatever
  their polar angles.
\<close>

theorem work_depends_on_E_P_Phi:
  assumes "get_double pool1 (m_ps_point m) = Some u"
    and "get_LorentzVector pool1 (m_input m) = Some p1"
    and "get_double pool2 (m_ps_point m) = Some u"
    and "get_LorentzVector pool2 (m_input m) = Some p2"
    and "E p1 = E p2" and "P p1 = P p2" and "Phi p1 = Phi p2"
  shows "\<exists>st pool1' pool2'. work m pool1 = Some (st, pool1') \<and> work m pool2 = Some (st, pool2')
     \<and> pool1' (output m) = pool2' (output m)
     \<and> pool1' (TF_times_jacobian m) = pool2' (TF_times_jacobian m)"
  using work_Some [OF assms(1,2)] work_Some [OF assms(3,4)] assms(5,6,7) output_neq_TF [of m]
  by simp

theorem work_depends_on_E_P_Phi_witness:
  "get_double (pool_of (1/2) \<lparr>fX = 3, fY = 0, fZ = 4, fT = 5\<rparr>) (m_ps_point tf_module) = Some (1/2)
   \<and> get_LorentzVector (pool_of (1/2) \<lparr>fX = 3, fY = 0, fZ = 4, fT = 5\<rparr>) (m_input tf_module)
       = Some \<lparr>fX = 3, fY = 0, fZ = 4, fT = 5\<rparr>
   \<and> get_double (pool_of (1/2) \<lparr>fX = 4, fY = 0, fZ = 3, fT = 5\<rparr>) (m_ps_point tf_module) = Some (1/2)
   \<and> get_LorentzVector (pool_of (1/2) \<lparr>fX = 4, fY = 0, fZ = 3, fT = 5\<rparr>) (m_input tf_module)
       = Some \<lparr>fX = 4, fY = 0, fZ = 3, fT = 5\<rparr>
   \<and> E \<lparr>fX = 3, fY = 0, fZ = 4, fT = 5\<rparr> = E \<lparr>fX = 4, fY = 0, fZ = 3, fT = 5\<rparr>
   \<and> P \<lparr>fX = 3, fY = 0, fZ = 4, fT = 5\<rparr> = P \<lparr>fX = 4, fY = 0, fZ = 3, fT = 5\<rparr>
   \<and> Phi \<lparr>fX = 3, fY = 0, fZ = 4, fT = 5\<rparr> = Phi \<lparr>fX = 4, fY = 0, fZ = 3, fT = 5\<rparr>
   \<and> Theta \<lparr>fX = 3, fY = 0, fZ = 4, fT = 5\<rparr> \<noteq> Theta \<lparr>fX = 4, fY = 0, fZ = 3, fT = 5\<rparr>
   \<and> (\<exists>st pool1' pool2'.
         work tf_module (pool_of (1/2) \<lparr>fX = 3, fY = 0, fZ = 4, fT = 5\<rparr>) = Some (st, pool1')
       \<and> work tf_module (pool_of (1/2) \<lparr>fX = 4, fY = 0, fZ = 3, fT = 5\<rparr>) = Some (st, pool2')
       \<and> pool1' (output tf_module) = pool2' (output tf_module)
       \<and> pool1' (TF_times_jacobian tf_module) = pool2' (TF_times_jacobian tf_module))"
proof -
  have e: "E \<lparr>fX = 3, fY = 0, fZ = 4, fT = 5\<rparr> = E \<lparr>fX = 4, fY = 0, fZ = 3, fT = 5\<rparr>"
    by (simp add: E_def)
  have m: "P \<lparr>fX = 3, fY = 0, fZ = 4, fT = 5\<rparr> = P \<lparr>fX = 4, fY = 0, fZ = 3, fT = 5\<rparr>"
    by (simp only: P_345 P_435)
  have a: "Phi \<lparr>fX = 3, fY = 0, fZ = 4, fT = 5\<rparr> = Phi \<lparr>fX = 4, fY = 0, fZ = 3, fT = 5\<rparr>"
    by (simp only: Phi_345 Phi_435)
  have t: "Theta \<lparr>fX = 3, fY = 0, fZ = 4, fT = 5\<rparr> \<noteq> Theta \<lparr>fX = 4, fY = 0, fZ = 3, fT = 5\<rparr>"
    by (simp add: Theta_345 Theta_435 arctan_eq_iff)
  from work_depends_on_E_P_Phi [OF tf_module_inputs tf_module_inputs e m a, of "1/2"]
    tf_module_inputs [of "1/2" "\<lparr>fX = 3, fY = 0, fZ = 4, fT = 5\<rparr>"]
    tf_module_inputs [of "1/2" "\<lparr>fX = 4, fY = 0, fZ = 3, fT = 5\<rparr>"]
    e m a t
  show ?thesis by blast
qed

end
